theory Spec2Isabelle
  imports Complex_Main
begin

section \<open>Data model\<close>

text \<open>
  The three source files drive AppKit and AVFoundation objects. The model keeps the
  fields and the control flow of the Python code and takes everything the code only
  reads from the outside world (the screen enumeration, the preferences, whether a
  native call raises, what the frame extractor and \<open>os.kill\<close> answer) from a record
  \<open>env\<close>. Coordinates are Python floats in the source; they are exact rationals here, so
  rounding is not modelled. Display identifiers are indices into \<open>NSScreen.screens()\<close>
  and are natural numbers. The calls to the logger are not modelled, except where a log
  line is the only observable result of a branch.

  The \<open>agent log\<close> regions append a line to a file at a fixed absolute path
  (\<open>open(".../.cursor/debug.log", "a").write(...)\<close>), which raises when the file
  cannot be opened. \<open>cleanup\<close> is modelled with that failure, since its writes stand
  outside any \<open>try\<close>. The manager and the engine are modelled for a machine on which
  the file can be opened, where the writes change no value.
\<close>

type_synonym path = string

datatype error = ZeroDivisionError | OSError

record frame =
  origin_x :: rat
  origin_y :: rat
  size_width :: rat
  size_height :: rat

record screen =
  screen_number :: nat
  screen_frame :: frame

type_synonym crop_rect = "rat \<times> rat \<times> rat \<times> rat"

datatype gravity = ResizeAspectFill | ResizeAspect | Resize

record ns_window =
  content_rect :: frame
  masks_to_bounds :: bool

record av_player =
  volume :: rat
  muted :: bool
  playing :: bool

record av_layer =
  video_gravity :: gravity
  layer_frame :: frame

text \<open>
  An instance of \<open>SPVideoWallpaperWindow\<close>. \<open>looper\<close> holds the path of the template
  item the looper repeats. \<open>crop_info\<close> is \<open>None\<close> both before \<open>setup\<close> and when \<open>setup\<close>
  stored the Python value \<open>None\<close>.
\<close>

record sp_window =
  window :: "ns_window option"
  player :: "av_player option"
  player_layer :: "av_layer option"
  looper :: "path option"
  target_screen :: "screen option"
  crop_info :: "crop_rect option"

text \<open>What the frame extractor reports for a video, in the order the source asks.\<close>

record media_probe =
  probe_raises :: bool
  duration_value :: int
  image_produced :: bool
  destination_created :: bool
  finalized :: bool

datatype kill_result = Killed | ProcessLookupError | OtherKillError

record env =
  screens :: "screen list"
  main_screen :: "screen option"
  native_raises :: "path \<Rightarrow> screen \<Rightarrow> bool"
  pref_volume :: rat
  pref_scale_mode :: "string option"
  static_cache_path :: path
  media :: "path \<Rightarrow> media_probe"
  os_kill :: "int \<Rightarrow> kill_result"
  post_raises :: bool

text \<open>
  The mutable state: the files on disk, the windows of the shared
  \<open>SPVideoWallpaperManager\<close>, the pid list of the \<open>VideoEngine\<close>, and a ghost list of the
  calls made to \<open>generate_static_frame\<close>.
\<close>

record state =
  files :: "path set"
  windows :: "sp_window list"
  daemon_pids :: "int list"
  gen_invocations :: "(path \<times> path) list"

datatype native_call = PlayerPause | LayerRemove | WindowClose

section \<open>video\_wallpaper\_window.py: SPVideoWallpaperWindow\<close>

definition init :: sp_window where
  "init = \<lparr>window = None, player = None, player_layer = None, looper = None,
            target_screen = None, crop_info = None\<rparr>"

definition bounds :: "frame \<Rightarrow> frame" where
  "bounds f = \<lparr>origin_x = 0, origin_y = 0, size_width = size_width f,
                size_height = size_height f\<rparr>"

text \<open>
  The frame of the player layer. With a crop rectangle the layer is scaled to the whole
  canvas and shifted; the two divisions are guarded in the source by
  \<open>if width_norm > 0 else window_width\<close>.
\<close>

definition layer_frame_for :: "frame \<Rightarrow> crop_rect option \<Rightarrow> frame" where
  "layer_frame_for window_bounds crop =
     (case crop of
        None \<Rightarrow> window_bounds
      | Some (x_norm, y_norm, width_norm, height_norm) \<Rightarrow>
          (let window_width = size_width window_bounds;
               window_height = size_height window_bounds;
               canvas_width = (if width_norm > 0 then window_width / width_norm
                               else window_width);
               canvas_height = (if height_norm > 0 then window_height / height_norm
                                else window_height);
               offset_x = - x_norm * canvas_width;
               offset_y = - y_norm * canvas_height
           in \<lparr>origin_x = offset_x, origin_y = offset_y, size_width = canvas_width,
                size_height = canvas_height\<rparr>))"

text \<open>
  \<open>setupWithVideo_screen_volume_scaleMode_cropRect_\<close>. The result \<open>None\<close> is the
  Python \<open>False\<close> (the factory then drops the partly built instance), \<open>Some\<close> is \<open>True\<close>
  with the instance as set up. A \<open>screen\<close> that is \<open>None\<close> makes \<open>screen.frame()\<close>
  raise inside the \<open>try\<close>; so does any native call when \<open>native_raises\<close> says so. The
  argument \<open>scale_mode\<close> is never read by the source: the gravity is set to
  \<open>AVLayerVideoGravityResizeAspectFill\<close> unconditionally.
\<close>

definition setupWithVideo ::
  "env \<Rightarrow> path set \<Rightarrow> sp_window \<Rightarrow> path \<Rightarrow> screen option \<Rightarrow> rat \<Rightarrow> string \<Rightarrow>
   crop_rect option \<Rightarrow> sp_window option" where
  "setupWithVideo E fs self video_path scr vol scale_mode crop =
     (if video_path \<notin> fs then None
      else case scr of
        None \<Rightarrow> None
      | Some s \<Rightarrow>
          if native_raises E video_path s then None
          else
            (let visible_frame = screen_frame s;
                 win = \<lparr>content_rect = visible_frame, masks_to_bounds = (crop \<noteq> None)\<rparr>;
                 layer = \<lparr>video_gravity = ResizeAspectFill,
                          layer_frame = layer_frame_for (bounds visible_frame) crop\<rparr>;
                 pl = \<lparr>volume = vol, muted = False, playing = True\<rparr>
             in Some (self\<lparr>target_screen := Some s, window := Some win,
                           player := Some pl, looper := Some video_path,
                           player_layer := Some layer, crop_info := crop\<rparr>)))"

definition createWithVideo ::
  "env \<Rightarrow> path set \<Rightarrow> path \<Rightarrow> screen option \<Rightarrow> rat \<Rightarrow> string \<Rightarrow> crop_rect option \<Rightarrow>
   sp_window option" where
  "createWithVideo E fs video_path scr vol scale_mode crop =
     setupWithVideo E fs init video_path scr vol scale_mode crop"

text \<open>
  The statements of \<open>cleanup\<close> other than its diagnostic writes, with the native calls
  they make. \<open>target_screen\<close> and \<open>crop_info\<close> are not reset by the source.
\<close>

definition cleanup_body :: "sp_window \<Rightarrow> sp_window \<times> native_call list" where
  "cleanup_body self =
     (let c1 = (if player self \<noteq> None then [PlayerPause] else []);
          c2 = (if player_layer self \<noteq> None \<and> window self \<noteq> None then [LayerRemove]
                else []);
          c3 = (if window self \<noteq> None then [WindowClose] else [])
      in (self\<lparr>window := None, looper := None, player := None, player_layer := None\<rparr>,
          c1 @ c2 @ c3))"

text \<open>
  A diagnostic write: \<open>open(path, "a")\<close> on the fixed path raises \<open>FileNotFoundError\<close>
  (an \<open>OSError\<close>) when the directory is absent; \<open>debug_log_ok\<close> says whether the file
  can be opened.
\<close>

definition debug_log :: "bool \<Rightarrow> error + unit" where
  "debug_log debug_log_ok = (if debug_log_ok then Inr () else Inl OSError)"

text \<open>
  \<open>cleanup\<close>. Its first statement is a diagnostic write, outside any \<open>try\<close>: when it
  raises, the exception leaves \<open>cleanup\<close> before anything else has run. The later
  writes of the function open the same file, so they succeed when the first one has.
\<close>

definition cleanup :: "bool \<Rightarrow> sp_window \<Rightarrow> error + sp_window \<times> native_call list" where
  "cleanup debug_log_ok self =
     (case debug_log debug_log_ok of
        Inl e \<Rightarrow> Inl e
      | Inr u \<Rightarrow> Inr (cleanup_body self))"

section \<open>video\_wallpaper\_window.py: SPVideoWallpaperManager\<close>

text \<open>
  \<open>stopAllWallpapers\<close>, where the diagnostic file can be opened: every \<open>cleanup\<close>
  then returns normally, having run its other statements.
\<close>

definition stopAllWallpapers :: "sp_window list \<Rightarrow> sp_window list \<times> native_call list" where
  "stopAllWallpapers ws = ([], concat (map (\<lambda>w. snd (cleanup_body w)) ws))"

text \<open>Python float division raises on a zero divisor.\<close>

definition py_div :: "rat \<Rightarrow> rat \<Rightarrow> error + rat" where
  "py_div a b = (if b = 0 then Inl ZeroDivisionError else Inr (a / b))"

text \<open>
  The bounding box accumulated by the first loop of \<open>__start_spanned_wallpaper\<close>. The
  source starts the four variables at \<open>inf, inf, -inf, -inf\<close>; \<open>None\<close> stands for that
  initial state, in which \<open>min(inf, v)\<close> and \<open>max(-inf, v)\<close> give \<open>v\<close>.
\<close>

record canvas =
  min_x :: rat
  min_y :: rat
  max_x :: rat
  max_y :: rat

fun extend_canvas :: "canvas option \<Rightarrow> frame \<Rightarrow> canvas" where
  "extend_canvas None f =
     \<lparr>min_x = origin_x f, min_y = origin_y f,
      max_x = origin_x f + size_width f, max_y = origin_y f + size_height f\<rparr>"
| "extend_canvas (Some c) f =
     \<lparr>min_x = min (min_x c) (origin_x f), min_y = min (min_y c) (origin_y f),
      max_x = max (max_x c) (origin_x f + size_width f),
      max_y = max (max_y c) (origin_y f + size_height f)\<rparr>"

fun collect_screens ::
  "screen list \<Rightarrow> nat list \<Rightarrow> (screen \<times> nat) list \<times> canvas option \<Rightarrow>
   (screen \<times> nat) list \<times> canvas option" where
  "collect_screens all_ns_screens [] acc = acc"
| "collect_screens all_ns_screens (display_id # ds) (scs, cv) =
     (if display_id \<ge> length all_ns_screens
      then collect_screens all_ns_screens ds (scs, cv)
      else
        (let scr = all_ns_screens ! display_id
         in collect_screens all_ns_screens ds
              (scs @ [(scr, display_id)], Some (extend_canvas cv (screen_frame scr)))))"

definition canvas_width :: "canvas \<Rightarrow> rat" where
  "canvas_width c = max_x c - min_x c"

definition canvas_height :: "canvas \<Rightarrow> rat" where
  "canvas_height c = max_y c - min_y c"

text \<open>The four divisions of the second loop, in the order of the source.\<close>

definition compute_crop_rect :: "canvas \<Rightarrow> frame \<Rightarrow> error + crop_rect" where
  "compute_crop_rect c f =
     (case py_div (origin_x f - min_x c) (canvas_width c) of
        Inl e \<Rightarrow> Inl e
      | Inr crop_x \<Rightarrow>
     (case py_div (origin_y f - min_y c) (canvas_height c) of
        Inl e \<Rightarrow> Inl e
      | Inr crop_y \<Rightarrow>
     (case py_div (size_width f) (canvas_width c) of
        Inl e \<Rightarrow> Inl e
      | Inr crop_width \<Rightarrow>
     (case py_div (size_height f) (canvas_height c) of
        Inl e \<Rightarrow> Inl e
      | Inr crop_height \<Rightarrow> Inr (crop_x, crop_y, crop_width, crop_height)))))"

text \<open>
  The second loop: one window per collected screen. An exception leaves the loop with
  the windows appended so far.
\<close>

fun spanned_loop ::
  "env \<Rightarrow> path set \<Rightarrow> path \<Rightarrow> rat \<Rightarrow> string \<Rightarrow> canvas \<Rightarrow> (screen \<times> nat) list \<Rightarrow>
   sp_window list \<times> nat \<Rightarrow> (error + unit) \<times> sp_window list \<times> nat" where
  "spanned_loop E fs video_path vol scale_mode c [] acc = (Inr (), acc)"
| "spanned_loop E fs video_path vol scale_mode c ((scr, display_id) # rest)
     (ws, success_count) =
     (case compute_crop_rect c (screen_frame scr) of
        Inl e \<Rightarrow> (Inl e, ws, success_count)
      | Inr crop \<Rightarrow>
          (case createWithVideo E fs video_path (Some scr) vol scale_mode (Some crop) of
             Some w \<Rightarrow>
               spanned_loop E fs video_path vol scale_mode c rest
                 (ws @ [w], success_count + 1)
           | None \<Rightarrow>
               spanned_loop E fs video_path vol scale_mode c rest (ws, success_count)))"

text \<open>
  \<open>__start_spanned_wallpaper\<close>. The result pairs what the call returns (or raises)
  with the manager's window list afterwards. The branch for a non-empty screen list
  with no bounding box cannot be taken (lemma \<open>collect_screens_canvas\<close> below).
\<close>

definition start_spanned_wallpaper ::
  "env \<Rightarrow> path set \<Rightarrow> sp_window list \<Rightarrow> path \<Rightarrow> nat list \<Rightarrow> rat \<Rightarrow> string \<Rightarrow>
   (error + bool) \<times> sp_window list" where
  "start_spanned_wallpaper E fs ws video_path display_ids vol scale_mode =
     (case collect_screens (screens E) display_ids ([], None) of
        (scs, cv) \<Rightarrow>
          if scs = [] then (Inr False, ws)
          else case cv of
            None \<Rightarrow> (Inr False, ws)
          | Some c \<Rightarrow>
              (case spanned_loop E fs video_path vol scale_mode c scs (ws, 0) of
                 (Inl e, ws', success_count) \<Rightarrow> (Inl e, ws')
               | (Inr u, ws', success_count) \<Rightarrow> (Inr (success_count > 0), ws')))"

definition screen_for :: "env \<Rightarrow> nat \<Rightarrow> screen option" where
  "screen_for E display_id =
     (if display_id \<ge> length (screens E) then main_screen E
      else Some (screens E ! display_id))"

fun individual_loop ::
  "env \<Rightarrow> path set \<Rightarrow> rat \<Rightarrow> string \<Rightarrow> (path \<times> nat) list \<Rightarrow> sp_window list \<times> nat \<Rightarrow>
   sp_window list \<times> nat" where
  "individual_loop E fs vol scale_mode [] acc = acc"
| "individual_loop E fs vol scale_mode ((video_path, display_id) # rest)
     (ws, success_count) =
     (case createWithVideo E fs video_path (screen_for E display_id) vol scale_mode None of
        Some w \<Rightarrow> individual_loop E fs vol scale_mode rest (ws @ [w], success_count + 1)
      | None \<Rightarrow> individual_loop E fs vol scale_mode rest (ws, success_count))"

definition start_individual_wallpapers ::
  "env \<Rightarrow> path set \<Rightarrow> sp_window list \<Rightarrow> path list \<Rightarrow> nat list \<Rightarrow> rat \<Rightarrow> string \<Rightarrow>
   (error + bool) \<times> sp_window list" where
  "start_individual_wallpapers E fs ws video_paths display_ids vol scale_mode =
     (case individual_loop E fs vol scale_mode (zip video_paths display_ids) (ws, 0) of
        (ws', success_count) \<Rightarrow> (Inr (success_count > 0), ws'))"

text \<open>
  \<open>startWallpaperWithPaths_displayIDs_volume_scaleMode_\<close>;
  \<open>len(set(video_paths))\<close> is the length of the list without its duplicates.
\<close>

definition is_spanning :: "path list \<Rightarrow> bool" where
  "is_spanning video_paths =
     (length (remdups video_paths) = 1 \<and> length video_paths > 1)"

definition startWallpaperWithPaths ::
  "env \<Rightarrow> path set \<Rightarrow> sp_window list \<Rightarrow> path list \<Rightarrow> nat list \<Rightarrow> rat \<Rightarrow> string \<Rightarrow>
   (error + bool) \<times> sp_window list" where
  "startWallpaperWithPaths E fs ws video_paths display_ids vol scale_mode =
     (let ws0 = fst (stopAllWallpapers ws)
      in if is_spanning video_paths
         then start_spanned_wallpaper E fs ws0 (video_paths ! 0) display_ids vol scale_mode
         else start_individual_wallpapers E fs ws0 video_paths display_ids vol scale_mode)"

section \<open>video\_daemon.py: VideoWallpaperWindow\<close>

text \<open>
  \<open>setupVideoPlayer\<close> of the helper process: the player with its volume and the layer
  whose gravity follows \<open>scale_mode\<close>.
\<close>

definition setupVideoPlayer :: "rat \<Rightarrow> string \<Rightarrow> frame \<Rightarrow> av_player \<times> av_layer" where
  "setupVideoPlayer current_volume scale_mode content_bounds =
     (\<lparr>volume = current_volume, muted = False, playing = False\<rparr>,
      \<lparr>video_gravity =
         (if scale_mode = ''fill'' then ResizeAspectFill
          else if scale_mode = ''fit'' then ResizeAspect
          else Resize),
       layer_frame = content_bounds\<rparr>)"

definition window_gravity :: "sp_window option \<Rightarrow> gravity option" where
  "window_gravity r =
     (case r of
        None \<Rightarrow> None
      | Some w \<Rightarrow> (case player_layer w of None \<Rightarrow> None | Some l \<Rightarrow> Some (video_gravity l)))"

section \<open>video\_engine.py: VideoEngine\<close>

definition default_volume :: rat where
  "default_volume = 0"

definition default_scale_mode :: string where
  "default_scale_mode = ''fill''"

text \<open>
  \<open>Path(video_path).stem\<close> for POSIX paths: the path is cut at \<open>/\<close>, empty and \<open>.\<close>
  components are dropped, the name is the last component, and the stem is the name
  before its last dot unless that dot is the first or the last character.
\<close>

fun split_slash :: "string \<Rightarrow> string \<Rightarrow> string list" where
  "split_slash cur [] = [cur]"
| "split_slash cur (c # cs) =
     (if c = CHR ''/'' then cur # split_slash [] cs else split_slash (cur @ [c]) cs)"

definition path_name :: "path \<Rightarrow> string" where
  "path_name p =
     (case filter (\<lambda>s. s \<noteq> [] \<and> s \<noteq> ''.'') (split_slash [] p) of
        [] \<Rightarrow> []
      | q # qs \<Rightarrow> last (q # qs))"

definition path_stem :: "path \<Rightarrow> string" where
  "path_stem p =
     (let name = path_name p
      in if CHR ''.'' \<notin> set name then name
         else
           (let i = length name - 1 - length (takeWhile (\<lambda>c. c \<noteq> CHR ''.'') (rev name))
            in if 0 < i \<and> i < length name - 1 then take i name else name))"

text \<open>\<open>os.path.join\<close> of two components (posixpath).\<close>

definition os_path_join :: "path \<Rightarrow> path \<Rightarrow> path" where
  "os_path_join a b =
     (if b \<noteq> [] \<and> hd b = CHR ''/'' then b
      else if a = [] \<or> last a = CHR ''/'' then a @ b
      else a @ ''/'' @ b)"

text \<open>
  \<open>generate_static_frame\<close>. Each call is recorded in \<open>gen_invocations\<close>. The file at
  \<open>output_path\<close> appears when \<open>CGImageDestinationFinalize\<close> succeeds.
\<close>

definition generate_static_frame :: "env \<Rightarrow> state \<Rightarrow> path \<Rightarrow> path \<Rightarrow> bool \<times> state" where
  "generate_static_frame E st video_path output_path =
     (let st1 = st\<lparr>gen_invocations := gen_invocations st @ [(video_path, output_path)]\<rparr>;
          m = media E video_path
      in if probe_raises m then (False, st1)
         else if duration_value m = 0 then (False, st1)
         else if \<not> image_produced m then (False, st1)
         else if \<not> destination_created m then (False, st1)
         else if finalized m then (True, st1\<lparr>files := insert output_path (files st1)\<rparr>)
         else (False, st1))"

definition static_frame_path :: "env \<Rightarrow> path \<Rightarrow> path" where
  "static_frame_path E video_path =
     os_path_join (static_cache_path E) (path_stem video_path @ ''.png'')"

definition get_or_generate_static_frame :: "env \<Rightarrow> state \<Rightarrow> path \<Rightarrow> path \<times> state" where
  "get_or_generate_static_frame E st video_path =
     (let static_path = static_frame_path E video_path
      in if static_path \<in> files st then (static_path, st)
         else
           (case generate_static_frame E st video_path static_path of
              (success, st') \<Rightarrow> if success then (static_path, st') else ([], st')))"

definition stop_video_wallpapers :: "state \<Rightarrow> state" where
  "stop_video_wallpapers st = st\<lparr>windows := fst (stopAllWallpapers (windows st))\<rparr>"

text \<open>
  The loop over \<open>video_paths\<close> in \<open>start_video_wallpaper\<close>: it returns from the whole
  call at the first path that does not exist (\<open>Some\<close> of that path).
\<close>

fun static_frames_loop :: "env \<Rightarrow> state \<Rightarrow> path list \<Rightarrow> path option \<times> state" where
  "static_frames_loop E st [] = (None, st)"
| "static_frames_loop E st (video_path # rest) =
     (if video_path \<notin> files st then (Some video_path, st)
      else static_frames_loop E (snd (get_or_generate_static_frame E st video_path)) rest)"

text \<open>
  \<open>start_video_wallpaper\<close> returns nothing in Python; \<open>outcome\<close> names the branch it
  leaves through, which the source tells apart by its log line only.
\<close>

datatype outcome = Mismatch | VideoNotFound path | Started | StartFailed | Raised error

definition start_video_wallpaper ::
  "env \<Rightarrow> state \<Rightarrow> path list \<Rightarrow> nat list \<Rightarrow> outcome \<times> state" where
  "start_video_wallpaper E st video_paths display_ids =
     (if length video_paths \<noteq> length display_ids then (Mismatch, st)
      else
        (let st1 = stop_video_wallpapers st;
             vol = (if pref_volume E = 0 then default_volume else pref_volume E);
             scale_mode_str =
               (case pref_scale_mode E of
                  None \<Rightarrow> default_scale_mode
                | Some s \<Rightarrow> if s = [] then default_scale_mode else s)
         in case static_frames_loop E st1 video_paths of
              (Some missing, st2) \<Rightarrow> (VideoNotFound missing, st2)
            | (None, st2) \<Rightarrow>
                (case startWallpaperWithPaths E (files st2) (windows st2) video_paths
                        display_ids vol scale_mode_str of
                   (Inl e, ws) \<Rightarrow> (Raised e, st2\<lparr>windows := ws\<rparr>)
                 | (Inr success, ws) \<Rightarrow>
                     (if success then Started else StartFailed, st2\<lparr>windows := ws\<rparr>))))"

text \<open>
  \<open>kill_all_daemons\<close>, with what it does in order: the broadcast, one signal per pid,
  and the log lines that tell the three outcomes of \<open>os.kill\<close> apart.
\<close>

datatype event =
    PostTerminate
  | LogSent
  | LogSendFailed
  | SigTerm int
  | LogKilled int
  | LogKillError int

definition send_terminate_notification :: "env \<Rightarrow> event list" where
  "send_terminate_notification E =
     (if post_raises E then [PostTerminate, LogSendFailed] else [PostTerminate, LogSent])"

fun kill_loop :: "env \<Rightarrow> int list \<Rightarrow> event list" where
  "kill_loop E [] = []"
| "kill_loop E (pid # rest) =
     (case os_kill E pid of
        Killed \<Rightarrow> [SigTerm pid, LogKilled pid]
      | ProcessLookupError \<Rightarrow> [SigTerm pid]
      | OtherKillError \<Rightarrow> [SigTerm pid, LogKillError pid]) @ kill_loop E rest"

definition kill_all_daemons :: "env \<Rightarrow> state \<Rightarrow> state \<times> event list" where
  "kill_all_daemons E st =
     (st\<lparr>daemon_pids := []\<rparr>,
      send_terminate_notification E @ kill_loop E (daemon_pids st))"

fun is_action :: "event \<Rightarrow> bool" where
  "is_action PostTerminate = True"
| "is_action (SigTerm pid) = True"
| "is_action e = False"

fun is_kill_error :: "event \<Rightarrow> bool" where
  "is_kill_error (LogKillError pid) = True"
| "is_kill_error e = False"

section \<open>Notions used to state the properties\<close>

text \<open>The two results of the first loop of \<open>__start_spanned_wallpaper\<close>.\<close>

definition spanning_screens :: "screen list \<Rightarrow> nat list \<Rightarrow> (screen \<times> nat) list" where
  "spanning_screens all_ns_screens display_ids =
     fst (collect_screens all_ns_screens display_ids ([], None))"

definition spanning_canvas :: "screen list \<Rightarrow> nat list \<Rightarrow> canvas option" where
  "spanning_canvas all_ns_screens display_ids =
     snd (collect_screens all_ns_screens display_ids ([], None))"

definition frames_of :: "(screen \<times> nat) list \<Rightarrow> frame list" where
  "frames_of scs = map (\<lambda>sd. screen_frame (fst sd)) scs"

definition right_edge :: "frame \<Rightarrow> rat" where
  "right_edge f = origin_x f + size_width f"

definition top_edge :: "frame \<Rightarrow> rat" where
  "top_edge f = origin_y f + size_height f"

definition in_range :: "screen list \<Rightarrow> nat list \<Rightarrow> nat list" where
  "in_range all_ns_screens display_ids =
     filter (\<lambda>d. d < length all_ns_screens) display_ids"

fun fold_canvas :: "canvas option \<Rightarrow> frame list \<Rightarrow> canvas option" where
  "fold_canvas cv [] = cv"
| "fold_canvas cv (f # fs) = fold_canvas (Some (extend_canvas cv f)) fs"

text \<open>
  The windows the loop of \<open>__start_individual_wallpapers\<close> appends: one attempt per
  pair of path and display, without a crop rectangle, kept when it succeeds.
\<close>

definition created_individual ::
  "env \<Rightarrow> path set \<Rightarrow> rat \<Rightarrow> string \<Rightarrow> (path \<times> nat) list \<Rightarrow> sp_window list" where
  "created_individual E fs vol scale_mode pds =
     concat (map (\<lambda>pd. case createWithVideo E fs (fst pd) (screen_for E (snd pd)) vol
                              scale_mode None of
                        None \<Rightarrow> [] | Some w \<Rightarrow> [w]) pds)"

text \<open>Concrete screens, environments and states for the examples.\<close>

definition scr_a :: screen where
  "scr_a = \<lparr>screen_number = 1,
            screen_frame = \<lparr>origin_x = 0, origin_y = 0, size_width = 1920,
                             size_height = 1080\<rparr>\<rparr>"

definition scr_b :: screen where
  "scr_b = \<lparr>screen_number = 2,
            screen_frame = \<lparr>origin_x = 1920, origin_y = 0, size_width = 1920,
                             size_height = 1080\<rparr>\<rparr>"

definition scr_c :: screen where
  "scr_c = \<lparr>screen_number = 3,
            screen_frame = \<lparr>origin_x = 3840, origin_y = 0, size_width = 1920,
                             size_height = 1080\<rparr>\<rparr>"

definition scr_zero :: screen where
  "scr_zero = \<lparr>screen_number = 1,
               screen_frame = \<lparr>origin_x = 0, origin_y = 0, size_width = 0,
                                size_height = 0\<rparr>\<rparr>"

definition probe_ok :: media_probe where
  "probe_ok = \<lparr>probe_raises = False, duration_value = 600, image_produced = True,
                destination_created = True, finalized = True\<rparr>"

definition example_env :: "screen list \<Rightarrow> env" where
  "example_env scs =
     \<lparr>screens = scs,
      main_screen = (case scs of [] \<Rightarrow> None | s # rest \<Rightarrow> Some s),
      native_raises = (\<lambda>p s. False),
      pref_volume = 0,
      pref_scale_mode = None,
      static_cache_path = ''/cache/wallpapers'',
      media = (\<lambda>p. probe_ok),
      os_kill = (\<lambda>pid. if pid = 11 then Killed
                       else if pid = 12 then ProcessLookupError
                       else OtherKillError),
      post_raises = False\<rparr>"

definition example_state :: "path set \<Rightarrow> sp_window list \<Rightarrow> int list \<Rightarrow> state" where
  "example_state fs ws pids =
     \<lparr>files = fs, windows = ws, daemon_pids = pids, gen_invocations = []\<rparr>"

section \<open>Teardown\<close>

text \<open>
  Where the diagnostic file can be opened, \<open>cleanup\<close> is idempotent: on a window that
  was already cleaned up, and on one that was never set up, it makes no native call and
  leaves the instance as it is.
\<close>

lemma cleanup_with_log:
  "cleanup True s = Inr (cleanup_body s) \<and>
   cleanup True (fst (cleanup_body s)) = Inr (fst (cleanup_body s), []) \<and>
   cleanup True init = Inr (init, [])"
  by (simp add: cleanup_def debug_log_def cleanup_body_def init_def Let_def)

text \<open>
  C8. The claim asks that \<open>cleanup\<close> on an already cleaned or never set up window never
  raises. Where the diagnostic file cannot be opened, the first statement of \<open>cleanup\<close>
  raises on every call, also on a window fresh from \<open>init\<close> and on one that was cleaned
  up before.
\<close>

theorem cleanup_raises_without_log:
  "cleanup False init = Inl OSError \<and>
   cleanup False (fst (cleanup_body s)) = Inl OSError"
  by (simp add: cleanup_def debug_log_def)

lemma kill_loop_actions: "filter is_action (kill_loop E pids) = map SigTerm pids"
  by (induction pids) (auto split: kill_result.splits)

lemma kill_loop_errors:
  "filter is_kill_error (kill_loop E pids) =
     map LogKillError (filter (\<lambda>p. os_kill E p = OtherKillError) pids)"
  by (induction pids) (auto split: kill_result.splits)

lemma send_terminate_actions:
  "filter is_action (send_terminate_notification E) = [PostTerminate]"
  by (simp add: send_terminate_notification_def)

lemma send_terminate_errors:
  "filter is_kill_error (send_terminate_notification E) = []"
  by (simp add: send_terminate_notification_def)

text \<open>
  C9. \<open>kill_all_daemons\<close> posts the terminate notification first, then signals every
  tracked pid in turn, reports an error for exactly the pids whose signal failed with
  something other than \<open>ProcessLookupError\<close>, and leaves the pid list empty whatever
  the signals answered.
\<close>

theorem kill_all_daemons_clears:
  "daemon_pids (fst (kill_all_daemons E st)) = [] \<and>
   filter is_action (snd (kill_all_daemons E st)) =
     PostTerminate # map SigTerm (daemon_pids st) \<and>
   filter is_kill_error (snd (kill_all_daemons E st)) =
     map LogKillError (filter (\<lambda>p. os_kill E p = OtherKillError) (daemon_pids st))"
  by (simp add: kill_all_daemons_def kill_loop_actions kill_loop_errors
      send_terminate_actions send_terminate_errors)

section \<open>Input validation\<close>

text \<open>
  C6. When the two lists differ in length, \<open>start_video_wallpaper\<close> leaves through the
  mismatch branch before anything else: the state, with the windows of the running
  session, is returned as it was.
\<close>

theorem start_mismatch:
  "length video_paths \<noteq> length display_ids \<Longrightarrow>
   start_video_wallpaper E st video_paths display_ids = (Mismatch, st)"
  by (simp add: start_video_wallpaper_def)

text \<open>
  Witness for C6: two paths for three displays, with one window of an earlier session
  in the state.
\<close>

theorem start_mismatch_witness:
  "length [''/v/a.mp4'', ''/v/b.mp4''] \<noteq> length [0, 1, 2 :: nat] \<and>
   start_video_wallpaper (example_env [scr_a, scr_b, scr_c])
     (example_state {''/v/a.mp4'', ''/v/b.mp4''} [init] [])
     [''/v/a.mp4'', ''/v/b.mp4''] [0, 1, 2]
   = (Mismatch, example_state {''/v/a.mp4'', ''/v/b.mp4''} [init] [])"
  using start_mismatch [of "[''/v/a.mp4'', ''/v/b.mp4'']" "[0, 1, 2]"
      "example_env [scr_a, scr_b, scr_c]"
      "example_state {''/v/a.mp4'', ''/v/b.mp4''} [init] []"]
  by simp

section \<open>Static frame cache\<close>

lemma static_frame_path_clip:
  "static_frame_path (example_env scs) ''/Users/me/Movies/clip.mp4''
   = ''/cache/wallpapers/clip.png''"
  by (simp add: static_frame_path_def example_env_def os_path_join_def path_stem_def
      path_name_def Let_def)

text \<open>
  C7. The cached file is named after the stem of the video path. When that file
  exists, \<open>get_or_generate_static_frame\<close> returns its path and changes nothing, so no
  call of \<open>generate_static_frame\<close> is recorded; a second call gives the same path, again
  with no generation.
\<close>

theorem get_or_generate_warm:
  "static_frame_path E video_path \<in> files st \<Longrightarrow>
   static_frame_path E video_path
     = os_path_join (static_cache_path E) (path_stem video_path @ ''.png'') \<and>
   get_or_generate_static_frame E st video_path = (static_frame_path E video_path, st) \<and>
   get_or_generate_static_frame E (snd (get_or_generate_static_frame E st video_path))
       video_path
     = (static_frame_path E video_path, st) \<and>
   gen_invocations
       (snd (get_or_generate_static_frame E
               (snd (get_or_generate_static_frame E st video_path)) video_path))
     = gen_invocations st"
  by (simp add: get_or_generate_static_frame_def static_frame_path_def)

text \<open>Witness for C7: a cache that already holds \<open>clip.png\<close>.\<close>

theorem get_or_generate_warm_witness:
  "static_frame_path (example_env []) ''/Users/me/Movies/clip.mp4''
     \<in> files (example_state {''/cache/wallpapers/clip.png''} [] []) \<and>
   get_or_generate_static_frame (example_env [])
       (example_state {''/cache/wallpapers/clip.png''} [] []) ''/Users/me/Movies/clip.mp4''
     = (''/cache/wallpapers/clip.png'',
        example_state {''/cache/wallpapers/clip.png''} [] []) \<and>
   gen_invocations
       (snd (get_or_generate_static_frame (example_env [])
               (snd (get_or_generate_static_frame (example_env [])
                       (example_state {''/cache/wallpapers/clip.png''} [] [])
                       ''/Users/me/Movies/clip.mp4''))
               ''/Users/me/Movies/clip.mp4''))
     = []"
proof -
  have warm: "static_frame_path (example_env []) ''/Users/me/Movies/clip.mp4''
     \<in> files (example_state {''/cache/wallpapers/clip.png''} [] [])"
    by (simp add: static_frame_path_clip example_state_def)
  show ?thesis
    using warm get_or_generate_warm [OF warm, THEN conjunct2]
    by (simp add: static_frame_path_clip example_state_def)
qed

section \<open>Spanning geometry\<close>

lemma collect_screens_acc:
  "collect_screens all ds (scs, cv) =
     (scs @ map (\<lambda>d. (all ! d, d)) (in_range all ds),
      fold_canvas cv (map (\<lambda>d. screen_frame (all ! d)) (in_range all ds)))"
  by (induction ds arbitrary: scs cv) (simp_all add: in_range_def Let_def)

lemma spanning_screens_eq:
  "spanning_screens all ds = map (\<lambda>d. (all ! d, d)) (in_range all ds)"
  by (simp add: spanning_screens_def collect_screens_acc)

lemma frames_of_spanning:
  "frames_of (spanning_screens all ds) = map (\<lambda>d. screen_frame (all ! d)) (in_range all ds)"
  by (simp add: spanning_screens_eq frames_of_def comp_def)

lemma spanning_canvas_eq:
  "spanning_canvas all ds = fold_canvas None (frames_of (spanning_screens all ds))"
  by (simp add: spanning_canvas_def collect_screens_acc frames_of_spanning)

lemma Min_insert_min:
  "finite A \<Longrightarrow> Min (insert (min a b) A) = Min (insert (a::rat) (insert b A))"
  by (cases "A = {}") (simp_all add: min.assoc)

lemma Max_insert_max:
  "finite A \<Longrightarrow> Max (insert (max a b) A) = Max (insert (a::rat) (insert b A))"
  by (cases "A = {}") (simp_all add: max.assoc)

lemma fold_canvas_Some:
  "\<exists>c'. fold_canvas (Some c) fs = Some c' \<and>
     min_x c' = Min (insert (min_x c) (origin_x ` set fs)) \<and>
     min_y c' = Min (insert (min_y c) (origin_y ` set fs)) \<and>
     max_x c' = Max (insert (max_x c) (right_edge ` set fs)) \<and>
     max_y c' = Max (insert (max_y c) (top_edge ` set fs))"
proof (induction fs arbitrary: c)
  case Nil
  then show ?case by simp
next
  case (Cons f fs)
  obtain c' where c': "fold_canvas (Some (extend_canvas (Some c) f)) fs = Some c'"
    and 1: "min_x c' = Min (insert (min_x (extend_canvas (Some c) f)) (origin_x ` set fs))"
    and 2: "min_y c' = Min (insert (min_y (extend_canvas (Some c) f)) (origin_y ` set fs))"
    and 3: "max_x c' = Max (insert (max_x (extend_canvas (Some c) f)) (right_edge ` set fs))"
    and 4: "max_y c' = Max (insert (max_y (extend_canvas (Some c) f)) (top_edge ` set fs))"
    using Cons.IH by blast
  have a: "Min (insert (min (min_x c) (origin_x f)) (origin_x ` set fs))
           = Min (insert (min_x c) (insert (origin_x f) (origin_x ` set fs)))"
    by (rule Min_insert_min) simp
  have b: "Min (insert (min (min_y c) (origin_y f)) (origin_y ` set fs))
           = Min (insert (min_y c) (insert (origin_y f) (origin_y ` set fs)))"
    by (rule Min_insert_min) simp
  have c: "Max (insert (max (max_x c) (right_edge f)) (right_edge ` set fs))
           = Max (insert (max_x c) (insert (right_edge f) (right_edge ` set fs)))"
    by (rule Max_insert_max) simp
  have d: "Max (insert (max (max_y c) (top_edge f)) (top_edge ` set fs))
           = Max (insert (max_y c) (insert (top_edge f) (top_edge ` set fs)))"
    by (rule Max_insert_max) simp
  show ?case
    using c' 1 2 3 4 a b c d by (simp add: right_edge_def top_edge_def del: Min_insert Max_insert)
qed

lemma fold_canvas_None:
  assumes "fs \<noteq> []"
  shows "\<exists>c. fold_canvas None fs = Some c \<and>
     min_x c = Min (origin_x ` set fs) \<and>
     min_y c = Min (origin_y ` set fs) \<and>
     max_x c = Max (right_edge ` set fs) \<and>
     max_y c = Max (top_edge ` set fs)"
proof -
  obtain f rest where fs: "fs = f # rest" using assms by (cases fs) auto
  obtain c' where c': "fold_canvas (Some (extend_canvas None f)) rest = Some c'"
    and 1: "min_x c' = Min (insert (min_x (extend_canvas None f)) (origin_x ` set rest))"
    and 2: "min_y c' = Min (insert (min_y (extend_canvas None f)) (origin_y ` set rest))"
    and 3: "max_x c' = Max (insert (max_x (extend_canvas None f)) (right_edge ` set rest))"
    and 4: "max_y c' = Max (insert (max_y (extend_canvas None f)) (top_edge ` set rest))"
    using fold_canvas_Some [of "extend_canvas None f" rest] by blast
  show ?thesis
    using c' 1 2 3 4 by (simp add: fs right_edge_def top_edge_def)
qed

lemma collect_screens_canvas:
  "(spanning_screens all ds = []) = (spanning_canvas all ds = None)"
proof (cases "spanning_screens all ds = []")
  case True
  then show ?thesis by (simp add: spanning_canvas_eq frames_of_def)
next
  case False
  then have "frames_of (spanning_screens all ds) \<noteq> []" by (simp add: frames_of_def)
  from fold_canvas_None [OF this] False show ?thesis by (auto simp: spanning_canvas_eq)
qed


lemma compute_crop_rect_zero:
  "canvas_width c = 0 \<or> canvas_height c = 0 \<Longrightarrow> compute_crop_rect c f = Inl ZeroDivisionError"
  by (auto simp: compute_crop_rect_def py_div_def)





text \<open>
  C2. The claim asks for the crop rectangle \<open>(0, 0, 1, 1)\<close> on a canvas of zero width
  or height. The source divides without a guard: with one zero-size screen selected
  twice for the same video, the manager raises \<open>ZeroDivisionError\<close> before any window
  is created, and the exception leaves \<open>start_video_wallpaper\<close> as well.
\<close>

theorem zero_canvas_raises:
  "startWallpaperWithPaths (example_env [scr_zero]) {''/v/a.mp4''} []
       [''/v/a.mp4'', ''/v/a.mp4''] [0, 0] 0 ''fill''
     = (Inl ZeroDivisionError, []) \<and>
   fst (start_video_wallpaper (example_env [scr_zero]) (example_state {''/v/a.mp4''} [] [])
          [''/v/a.mp4'', ''/v/a.mp4''] [0, 0])
     = Raised ZeroDivisionError"
  by code_simp

section \<open>Video gravity\<close>

text \<open>
  C3, as stated, fails in the in-process window: asked for \<open>fit\<close>, the layer of a
  spanned window still gets the aspect-fill gravity, not the aspect gravity.
\<close>

theorem gravity_window_counterexample:
  "window_gravity
     (createWithVideo (example_env [scr_a, scr_b]) {''/v/a.mp4''} ''/v/a.mp4'' (Some scr_a)
        0 ''fit'' (Some (0, 0, 1 / 2, 1)))
     = Some ResizeAspectFill \<and>
   window_gravity
     (createWithVideo (example_env [scr_a, scr_b]) {''/v/a.mp4''} ''/v/a.mp4'' (Some scr_a)
        0 ''fit'' (Some (0, 0, 1 / 2, 1)))
     \<noteq> Some ResizeAspect"
  by (simp add: window_gravity_def createWithVideo_def setupWithVideo_def example_env_def
      Let_def init_def)

text \<open>
  C3, amended. In the helper process the gravity follows the scale mode: \<open>fill\<close> gives
  aspect-fill, \<open>fit\<close> gives aspect, anything else gives the plain resize. In the
  in-process window of a spanned video (a crop rectangle is given) the gravity is
  aspect-fill whatever the scale mode.
\<close>

theorem gravity_by_path:
  "video_gravity (snd (setupVideoPlayer vol ''fill'' b)) = ResizeAspectFill \<and>
   video_gravity (snd (setupVideoPlayer vol ''fit'' b)) = ResizeAspect \<and>
   (scale_mode \<noteq> ''fill'' \<and> scale_mode \<noteq> ''fit'' \<longrightarrow>
      video_gravity (snd (setupVideoPlayer vol scale_mode b)) = Resize) \<and>
   (createWithVideo E fs video_path scr v scale_mode (Some crop) \<noteq> None \<longrightarrow>
      window_gravity (createWithVideo E fs video_path scr v scale_mode (Some crop))
        = Some ResizeAspectFill)"
  by (auto simp: setupVideoPlayer_def window_gravity_def createWithVideo_def
      setupWithVideo_def Let_def split: option.splits if_splits)

text \<open>
  Witness for the amended C3: the unrecognised mode \<open>zoom\<close> in the helper process and
  in a spanned in-process window.
\<close>

theorem gravity_by_path_witness:
  "''zoom'' \<noteq> ''fill'' \<and> ''zoom'' \<noteq> ''fit'' \<and>
   video_gravity (snd (setupVideoPlayer 0 ''zoom'' (bounds (screen_frame scr_a)))) = Resize \<and>
   createWithVideo (example_env [scr_a, scr_b]) {''/v/a.mp4''} ''/v/a.mp4'' (Some scr_a)
       0 ''zoom'' (Some (0, 0, 1 / 2, 1)) \<noteq> None \<and>
   window_gravity
     (createWithVideo (example_env [scr_a, scr_b]) {''/v/a.mp4''} ''/v/a.mp4'' (Some scr_a)
        0 ''zoom'' (Some (0, 0, 1 / 2, 1)))
     = Some ResizeAspectFill"
proof -
  have made: "createWithVideo (example_env [scr_a, scr_b]) {''/v/a.mp4''} ''/v/a.mp4''
      (Some scr_a) 0 ''zoom'' (Some (0, 0, 1 / 2, 1)) \<noteq> None"
    by (simp add: createWithVideo_def setupWithVideo_def example_env_def Let_def)
  have mode: "''zoom'' \<noteq> ''fill'' \<and> ''zoom'' \<noteq> ''fit''"
    by simp
  show ?thesis
    using made mode
      gravity_by_path [of 0 "bounds (screen_frame scr_a)" "''zoom''"
        "example_env [scr_a, scr_b]" "{''/v/a.mp4''}" "''/v/a.mp4''" "Some scr_a" 0
        "(0, 0, 1 / 2, 1)"]
    by blast
qed

section \<open>Mode decision and display indices\<close>

lemma createWithVideo_props:
  "createWithVideo E fs p scr vol sm crop = Some w \<Longrightarrow>
   target_screen w = scr \<and> looper w = Some p \<and> crop_info w = crop \<and> p \<in> fs"
  by (auto simp: createWithVideo_def setupWithVideo_def Let_def init_def
      split: if_splits option.splits)

lemma createWithVideo_Some:
  "p \<in> fs \<Longrightarrow> \<not> native_raises E p s \<Longrightarrow>
   \<exists>w. createWithVideo E fs p (Some s) vol sm crop = Some w"
  by (simp add: createWithVideo_def setupWithVideo_def Let_def)

lemma createWithVideo_missing:
  "p \<notin> fs \<Longrightarrow> createWithVideo E fs p scr vol sm crop = None"
  by (simp add: createWithVideo_def setupWithVideo_def)

lemma individual_loop_eq:
  "individual_loop E fs vol sm pds (ws, n) =
     (ws @ created_individual E fs vol sm pds,
      n + length (created_individual E fs vol sm pds))"
  by (induction pds arbitrary: ws n)
     (auto simp: created_individual_def split: option.splits)

lemma start_individual_eq:
  "start_individual_wallpapers E fs ws vp ds vol sm =
     (Inr (created_individual E fs vol sm (zip vp ds) \<noteq> []),
      ws @ created_individual E fs vol sm (zip vp ds))"
  by (simp add: start_individual_wallpapers_def individual_loop_eq)

lemma created_individual_append:
  "created_individual E fs vol sm (xs @ ys) =
     created_individual E fs vol sm xs @ created_individual E fs vol sm ys"
  by (simp add: created_individual_def)

lemma created_individual_crop:
  "w \<in> set (created_individual E fs vol sm pds) \<Longrightarrow> crop_info w = None"
  by (auto simp: created_individual_def split: option.splits
      dest: createWithVideo_props createWithVideo_props [OF sym])


lemma created_individual_all:
  assumes "\<forall>pd \<in> set pds. fst pd \<in> fs \<and>
             (\<exists>s. screen_for E (snd pd) = Some s \<and> \<not> native_raises E (fst pd) s)"
  shows "map looper (created_individual E fs vol sm pds) = map (\<lambda>pd. Some (fst pd)) pds \<and>
         map target_screen (created_individual E fs vol sm pds)
           = map (\<lambda>pd. screen_for E (snd pd)) pds"
  using assms
proof (induction pds)
  case Nil
  then show ?case by (simp add: created_individual_def)
next
  case (Cons pd pds)
  from Cons.prems obtain s where s: "fst pd \<in> fs" "screen_for E (snd pd) = Some s"
    "\<not> native_raises E (fst pd) s" by auto
  from createWithVideo_Some [OF s(1) s(3)] obtain w where
    w: "createWithVideo E fs (fst pd) (Some s) vol sm None = Some w" by blast
  from createWithVideo_props [OF w] have p: "target_screen w = Some s" "looper w = Some (fst pd)"
    by auto
  have "created_individual E fs vol sm (pd # pds) = w # created_individual E fs vol sm pds"
    using w s(2) by (simp add: created_individual_def)
  with Cons p s(2) show ?case by simp
qed

lemma remdups_one:
  "length (remdups xs) = 1 \<Longrightarrow> x \<in> set xs \<Longrightarrow> y \<in> set xs \<Longrightarrow> x = y"
proof -
  assume a: "length (remdups xs) = 1" and x: "x \<in> set xs" and y: "y \<in> set xs"
  from a have "card (set xs) = 1" by (simp add: length_remdups_card_conv)
  then obtain z where "set xs = {z}" by (auto simp: card_Suc_eq numeral_eq_Suc)
  with x y show "x = y" by auto
qed

lemma is_spanning_card:
  "is_spanning vp = (card (set vp) = 1 \<and> 1 < length vp)"
  by (simp add: is_spanning_def length_remdups_card_conv)

lemma spanned_loop_windows:
  "spanned_loop E fs p vol sm c scs (ws, n) = (r, ws', n') \<Longrightarrow>
   \<exists>new. ws' = ws @ new \<and> n' = n + length new \<and>
     (\<forall>w \<in> set new. crop_info w \<noteq> None \<and> looper w = Some p \<and>
        target_screen w \<in> (\<lambda>sd. Some (fst sd)) ` set scs)"
proof (induction scs arbitrary: ws n)
  case Nil
  then show ?case by simp
next
  case (Cons sd scs)
  obtain s d where sd: "sd = (s, d)" by (cases sd)
  show ?case
  proof (cases "compute_crop_rect c (screen_frame s)")
    case (Inl e)
    with Cons.prems sd show ?thesis by simp
  next
    case (Inr crop)
    show ?thesis
    proof (cases "createWithVideo E fs p (Some s) vol sm (Some crop)")
      case None
      with Cons.prems sd Inr have "spanned_loop E fs p vol sm c scs (ws, n) = (r, ws', n')"
        by simp
      from Cons.IH [OF this] show ?thesis by auto
    next
      case (Some w)
      with Cons.prems sd Inr
      have "spanned_loop E fs p vol sm c scs (ws @ [w], n + 1) = (r, ws', n')"
        by simp
      from Cons.IH [OF this] obtain new where
        new: "ws' = (ws @ [w]) @ new" "n' = n + 1 + length new"
          "\<forall>w \<in> set new. crop_info w \<noteq> None \<and> looper w = Some p \<and>
             target_screen w \<in> (\<lambda>sd. Some (fst sd)) ` set scs"
        by auto
      from createWithVideo_props [OF Some]
      have w: "crop_info w \<noteq> None" "looper w = Some p" "target_screen w = Some s" by auto
      have "ws' = ws @ (w # new) \<and> n' = n + length (w # new) \<and>
        (\<forall>w \<in> set (w # new). crop_info w \<noteq> None \<and> looper w = Some p \<and>
           target_screen w \<in> (\<lambda>sd. Some (fst sd)) ` set (sd # scs))"
        using new w sd by auto
      then show ?thesis by blast
    qed
  qed
qed







lemma start_spanned_windows:
  "w \<in> set (snd (start_spanned_wallpaper E fs [] p ds vol sm)) \<Longrightarrow>
   crop_info w \<noteq> None \<and> looper w = Some p"
proof -
  assume w: "w \<in> set (snd (start_spanned_wallpaper E fs [] p ds vol sm))"
  obtain scs cv where col: "collect_screens (screens E) ds ([], None) = (scs, cv)"
    by (cases "collect_screens (screens E) ds ([], None)")
  show ?thesis
  proof (cases "scs = [] \<or> cv = None")
    case True
    with w col show ?thesis
      by (auto simp: start_spanned_wallpaper_def split: if_splits)
  next
    case False
    then obtain c where c: "cv = Some c" and ne: "scs \<noteq> []" by auto
    obtain r ws' n' where
      loop: "spanned_loop E fs p vol sm c scs ([], 0) = (r, ws', n')"
      by (cases "spanned_loop E fs p vol sm c scs ([], 0)")
    from spanned_loop_windows [OF loop] have
      all: "\<forall>w \<in> set ws'. crop_info w \<noteq> None \<and> looper w = Some p"
      by auto
    have "snd (start_spanned_wallpaper E fs [] p ds vol sm) = ws'"
      using col c ne loop by (cases r) (simp_all add: start_spanned_wallpaper_def)
    with w all show ?thesis by simp
  qed
qed

text \<open>
  C5. The manager spans exactly when the path list holds one distinct path and has
  more than one entry: then it runs \<open>__start_spanned_wallpaper\<close> on that path, and
  every window it creates carries a crop rectangle. Otherwise it makes one attempt per
  pair of path and display, each with its own path and with no crop rectangle. In both
  cases a window has a crop rectangle exactly when the list satisfies the spanning
  condition; no other argument enters the decision.
\<close>

theorem spanning_decision:
  "is_spanning video_paths = (card (set video_paths) = 1 \<and> 1 < length video_paths) \<and>
   (\<forall>w \<in> set (snd (startWallpaperWithPaths E fs ws video_paths display_ids vol scale_mode)).
      (crop_info w \<noteq> None) = (card (set video_paths) = 1 \<and> 1 < length video_paths)) \<and>
   (card (set video_paths) = 1 \<and> 1 < length video_paths \<longrightarrow>
      startWallpaperWithPaths E fs ws video_paths display_ids vol scale_mode
        = start_spanned_wallpaper E fs [] (video_paths ! 0) display_ids vol scale_mode) \<and>
   (\<not> (card (set video_paths) = 1 \<and> 1 < length video_paths) \<longrightarrow>
      startWallpaperWithPaths E fs ws video_paths display_ids vol scale_mode
        = (Inr (created_individual E fs vol scale_mode (zip video_paths display_ids) \<noteq> []),
           created_individual E fs vol scale_mode (zip video_paths display_ids)))"
proof (cases "is_spanning video_paths")
  case True
  then have eq: "startWallpaperWithPaths E fs ws video_paths display_ids vol scale_mode
        = start_spanned_wallpaper E fs [] (video_paths ! 0) display_ids vol scale_mode"
    by (simp add: startWallpaperWithPaths_def stopAllWallpapers_def)
  from True have c: "card (set video_paths) = 1 \<and> 1 < length video_paths"
    by (simp add: is_spanning_card)
  show ?thesis
    using True c eq start_spanned_windows [of _ E fs "video_paths ! 0" display_ids vol scale_mode]
    by (auto simp: is_spanning_card)
next
  case False
  then have eq: "startWallpaperWithPaths E fs ws video_paths display_ids vol scale_mode
        = (Inr (created_individual E fs vol scale_mode (zip video_paths display_ids) \<noteq> []),
           created_individual E fs vol scale_mode (zip video_paths display_ids))"
    by (simp add: startWallpaperWithPaths_def stopAllWallpapers_def start_individual_eq)
  from False have c: "\<not> (card (set video_paths) = 1 \<and> 1 < length video_paths)"
    by (simp add: is_spanning_card)
  show ?thesis
    using c eq created_individual_crop [of _ E fs vol scale_mode "zip video_paths display_ids"]
    by (auto simp: is_spanning_card)
qed

text \<open>
  Witness for C5: two displays showing the same path (spanned, with crop rectangles) and
  showing two different paths (one window each, no crop rectangle).
\<close>

theorem spanning_decision_witness:
  "card (set [''/v/a.mp4'', ''/v/a.mp4'']) = 1 \<and>
   1 < length [''/v/a.mp4'', ''/v/a.mp4''] \<and>
   is_spanning [''/v/a.mp4'', ''/v/a.mp4''] \<and>
   map crop_info
     (snd (startWallpaperWithPaths (example_env [scr_a, scr_b]) {''/v/a.mp4'', ''/v/b.mp4''} []
             [''/v/a.mp4'', ''/v/a.mp4''] [0, 1] 0 ''fill''))
     = [Some (0, 0, 1 / 2, 1), Some (1 / 2, 0, 1 / 2, 1)] \<and>
   \<not> (card (set [''/v/a.mp4'', ''/v/b.mp4'']) = 1 \<and>
        1 < length [''/v/a.mp4'', ''/v/b.mp4'']) \<and>
   \<not> is_spanning [''/v/a.mp4'', ''/v/b.mp4''] \<and>
   fst (startWallpaperWithPaths (example_env [scr_a, scr_b]) {''/v/a.mp4'', ''/v/b.mp4''} []
          [''/v/a.mp4'', ''/v/b.mp4''] [0, 1] 0 ''fill'')
     = Inr True \<and>
   map crop_info
     (snd (startWallpaperWithPaths (example_env [scr_a, scr_b]) {''/v/a.mp4'', ''/v/b.mp4''} []
             [''/v/a.mp4'', ''/v/b.mp4''] [0, 1] 0 ''fill''))
     = [None, None] \<and>
   map looper
     (snd (startWallpaperWithPaths (example_env [scr_a, scr_b]) {''/v/a.mp4'', ''/v/b.mp4''} []
             [''/v/a.mp4'', ''/v/b.mp4''] [0, 1] 0 ''fill''))
     = [Some ''/v/a.mp4'', Some ''/v/b.mp4'']"
  using
    spanning_decision [of "[''/v/a.mp4'', ''/v/a.mp4'']" "example_env [scr_a, scr_b]"
      "{''/v/a.mp4'', ''/v/b.mp4''}" "[]" "[0, 1]" 0 "''fill''"]
    spanning_decision [of "[''/v/a.mp4'', ''/v/b.mp4'']" "example_env [scr_a, scr_b]"
      "{''/v/a.mp4'', ''/v/b.mp4''}" "[]" "[0, 1]" 0 "''fill''"]
  by (simp add: created_individual_def screen_for_def startWallpaperWithPaths_def
      is_spanning_def stopAllWallpapers_def
      start_spanned_wallpaper_def example_env_def scr_a_def scr_b_def compute_crop_rect_def
      py_div_def canvas_width_def canvas_height_def createWithVideo_def setupWithVideo_def
      Let_def init_def)



section \<open>A missing video among several displays\<close>

lemma get_or_generate_effect:
  "files st \<subseteq> files (snd (get_or_generate_static_frame E st v)) \<and>
   files (snd (get_or_generate_static_frame E st v))
     \<subseteq> insert (static_frame_path E v) (files st) \<and>
   windows (snd (get_or_generate_static_frame E st v)) = windows st"
  by (auto simp: get_or_generate_static_frame_def generate_static_frame_def Let_def)

lemma static_frames_loop_missing:
  "set pre \<subseteq> files st \<Longrightarrow> p \<notin> files st \<Longrightarrow> p \<notin> static_frame_path E ` set pre \<Longrightarrow>
   \<exists>st'. static_frames_loop E st (pre @ p # post) = (Some p, st') \<and>
         windows st' = windows st"
proof (induction pre arbitrary: st)
  case Nil
  then show ?case by simp
next
  case (Cons v pre)
  let ?st1 = "snd (get_or_generate_static_frame E st v)"
  note eff = get_or_generate_effect [of st E v]
  from Cons.prems have v: "v \<in> files st" by simp
  from Cons.prems eff have 1: "set pre \<subseteq> files ?st1" by auto
  from Cons.prems eff have 2: "p \<notin> files ?st1" by auto
  from Cons.prems have 3: "p \<notin> static_frame_path E ` set pre" by auto
  from Cons.IH [OF 1 2 3] obtain st' where
    "static_frames_loop E ?st1 (pre @ p # post) = (Some p, st')" "windows st' = windows ?st1"
    by blast
  with v eff show ?case by simp
qed

lemma start_video_missing:
  assumes "video_paths = pre @ p # post" "length video_paths = length display_ids"
    "set pre \<subseteq> files st" "p \<notin> files st" "p \<notin> static_frame_path E ` set pre"
  shows "fst (start_video_wallpaper E st video_paths display_ids) = VideoNotFound p \<and>
         windows (snd (start_video_wallpaper E st video_paths display_ids)) = []"
proof -
  let ?st1 = "stop_video_wallpapers st"
  have f: "files ?st1 = files st" and w: "windows ?st1 = []"
    by (simp_all add: stop_video_wallpapers_def stopAllWallpapers_def)
  from assms f have "set pre \<subseteq> files ?st1" "p \<notin> files ?st1" by simp_all
  from static_frames_loop_missing [OF this assms(5), of post] obtain st' where
    st': "static_frames_loop E ?st1 (pre @ p # post) = (Some p, st')" "windows st' = windows ?st1"
    by blast
  with assms(1,2) w show ?thesis
    by (simp add: start_video_wallpaper_def Let_def)
qed

lemma not_spanning_distinct:
  "x \<in> set vp \<Longrightarrow> y \<in> set vp \<Longrightarrow> x \<noteq> y \<Longrightarrow> \<not> is_spanning vp"
  using remdups_one [of vp x y] by (auto simp: is_spanning_def)

lemma created_individual_one_missing:
  assumes len: "length vp = length ds" and i: "i < length vp" and miss: "vp ! i \<notin> fs"
    and ok: "\<forall>j < length vp. j \<noteq> i \<longrightarrow> vp ! j \<in> fs \<and>
               (\<exists>s. screen_for E (ds ! j) = Some s \<and> \<not> native_raises E (vp ! j) s)"
  shows "map looper (created_individual E fs vol sm (zip vp ds))
           = map Some (take i vp @ drop (Suc i) vp) \<and>
         map target_screen (created_individual E fs vol sm (zip vp ds))
           = map (screen_for E) (take i ds @ drop (Suc i) ds)"
proof -
  let ?z = "zip vp ds"
  have iz: "i < length ?z" using len i by simp
  have split: "?z = take i ?z @ ?z ! i # drop (Suc i) ?z"
    using iz by (rule id_take_nth_drop)
  have mid: "created_individual E fs vol sm [?z ! i] = []"
    using miss i len by (simp add: created_individual_def createWithVideo_missing)
  have okz: "\<forall>pd \<in> set (take i ?z @ drop (Suc i) ?z). fst pd \<in> fs \<and>
             (\<exists>s. screen_for E (snd pd) = Some s \<and> \<not> native_raises E (fst pd) s)"
  proof
    fix pd assume "pd \<in> set (take i ?z @ drop (Suc i) ?z)"
    then consider "pd \<in> set (take i ?z)" | "pd \<in> set (drop (Suc i) ?z)" by auto
    then obtain j where j: "j < length ?z" "j \<noteq> i" "pd = ?z ! j"
    proof cases
      case 1
      then obtain k where "k < length (take i ?z)" "take i ?z ! k = pd"
        by (auto simp: in_set_conv_nth)
      then have "k < length ?z" "k \<noteq> i" "pd = ?z ! k" using iz by auto
      then show ?thesis by (rule that)
    next
      case 2
      then obtain k where k: "k < length (drop (Suc i) ?z)" "drop (Suc i) ?z ! k = pd"
        by (auto simp: in_set_conv_nth)
      then have "Suc i + k < length ?z" "Suc i + k \<noteq> i" "pd = ?z ! (Suc i + k)"
        using iz by auto
      then show ?thesis by (rule that)
    qed
    then have "j < length vp" "fst pd = vp ! j" "snd pd = ds ! j" using len by auto
    with ok j(2) show "fst pd \<in> fs \<and>
             (\<exists>s. screen_for E (snd pd) = Some s \<and> \<not> native_raises E (fst pd) s)"
      by auto
  qed
  have eq: "created_individual E fs vol sm ?z
      = created_individual E fs vol sm (take i ?z @ drop (Suc i) ?z)"
  proof -
    have "created_individual E fs vol sm ?z
      = created_individual E fs vol sm (take i ?z @ [?z ! i] @ drop (Suc i) ?z)"
      using split by simp
    also have "\<dots> = created_individual E fs vol sm (take i ?z) @
        created_individual E fs vol sm [?z ! i] @
        created_individual E fs vol sm (drop (Suc i) ?z)"
      by (simp only: created_individual_append)
    also have "\<dots> = created_individual E fs vol sm (take i ?z @ drop (Suc i) ?z)"
      by (simp add: mid created_individual_append)
    finally show ?thesis .
  qed
  have fsts: "map (\<lambda>pd. Some (fst pd)) (take i ?z @ drop (Suc i) ?z)
      = map Some (take i vp @ drop (Suc i) vp)"
  proof -
    have "map fst ?z = vp" using len by simp
    then have "map fst (take i ?z @ drop (Suc i) ?z) = take i vp @ drop (Suc i) vp"
      by (metis drop_map map_append take_map)
    then have "map Some (map fst (take i ?z @ drop (Suc i) ?z))
      = map Some (take i vp @ drop (Suc i) vp)" by simp
    then show ?thesis by (simp add: comp_def)
  qed
  have snds: "map (\<lambda>pd. screen_for E (snd pd)) (take i ?z @ drop (Suc i) ?z)
      = map (screen_for E) (take i ds @ drop (Suc i) ds)"
  proof -
    have "map snd ?z = ds" using len by simp
    then have "map snd (take i ?z @ drop (Suc i) ?z) = take i ds @ drop (Suc i) ds"
      by (metis drop_map map_append take_map)
    then have "map (screen_for E) (map snd (take i ?z @ drop (Suc i) ?z))
      = map (screen_for E) (take i ds @ drop (Suc i) ds)" by simp
    then show ?thesis by (simp add: comp_def)
  qed
  from created_individual_all [OF okz, of vol sm] eq fsts snds show ?thesis by simp
qed

lemma start_one_missing:
  assumes len: "length vp = length ds" and many: "1 < length vp" and i: "i < length vp"
    and miss: "vp ! i \<notin> fs"
    and ok: "\<forall>j < length vp. j \<noteq> i \<longrightarrow> vp ! j \<in> fs \<and>
               (\<exists>s. screen_for E (ds ! j) = Some s \<and> \<not> native_raises E (vp ! j) s)"
  shows "fst (startWallpaperWithPaths E fs ws vp ds vol sm) = Inr True \<and>
         map looper (snd (startWallpaperWithPaths E fs ws vp ds vol sm))
           = map Some (take i vp @ drop (Suc i) vp) \<and>
         map target_screen (snd (startWallpaperWithPaths E fs ws vp ds vol sm))
           = map (screen_for E) (take i ds @ drop (Suc i) ds)"
proof -
  have "\<exists>j. j < length vp \<and> j \<noteq> i"
  proof (cases "i = 0")
    case True
    with many have "1 < length vp \<and> (1::nat) \<noteq> i" by simp
    then show ?thesis by blast
  next
    case False
    with i have "0 < length vp \<and> 0 \<noteq> i" by (cases vp) auto
    then show ?thesis by blast
  qed
  then obtain j where j: "j < length vp" "j \<noteq> i" by blast
  with ok have "vp ! j \<in> fs" by simp
  with miss have ne: "vp ! j \<noteq> vp ! i" by auto
  have "\<not> is_spanning vp"
    using not_spanning_distinct [of "vp ! j" vp "vp ! i"] j i ne by simp
  then have eq: "startWallpaperWithPaths E fs ws vp ds vol sm
      = (Inr (created_individual E fs vol sm (zip vp ds) \<noteq> []),
         created_individual E fs vol sm (zip vp ds))"
    by (simp add: startWallpaperWithPaths_def stopAllWallpapers_def start_individual_eq)
  note c = created_individual_one_missing [OF len i miss ok, of vol sm]
  have "take i vp @ drop (Suc i) vp \<noteq> []" using many i by (cases "i = 0") auto
  with c have "created_individual E fs vol sm (zip vp ds) \<noteq> []" by auto
  with eq c show ?thesis by simp
qed

text \<open>
  C1, as stated, fails in \<open>start_video_wallpaper\<close>: with three displays and the second
  video missing, the call leaves through the \<open>Video not found\<close> branch and no window
  exists afterwards, although the first and the third video are on disk.
\<close>

theorem missing_video_counterexample:
  "fst (start_video_wallpaper (example_env [scr_a, scr_b, scr_c])
          (example_state {''/v/a.mp4'', ''/v/c.mp4''} [] [])
          [''/v/a.mp4'', ''/v/missing.mp4'', ''/v/c.mp4''] [0, 1, 2])
     = VideoNotFound ''/v/missing.mp4'' \<and>
   windows (snd (start_video_wallpaper (example_env [scr_a, scr_b, scr_c])
                   (example_state {''/v/a.mp4'', ''/v/c.mp4''} [] [])
                   [''/v/a.mp4'', ''/v/missing.mp4'', ''/v/c.mp4''] [0, 1, 2]))
     = []"
  by code_simp

text \<open>
  C1, amended. \<open>start_video_wallpaper\<close> checks every path before any window is made:
  at the first path that does not exist (and is not a still frame written for an earlier
  path of the same call) it stops, with the previous session already torn down and no
  window created. The isolation of a failing display holds one level below, in
  \<open>startWallpaperWithPaths\<close>: with several displays, exactly one missing video and
  every other window creatable, it returns \<open>True\<close> and creates one window for each
  other display, with that display's own video and screen.
\<close>

theorem missing_video_handling:
  "(video_paths = pre @ p # post \<and> length video_paths = length display_ids \<and>
    set pre \<subseteq> files st \<and> p \<notin> files st \<and> p \<notin> static_frame_path E ` set pre \<longrightarrow>
      fst (start_video_wallpaper E st video_paths display_ids) = VideoNotFound p \<and>
      windows (snd (start_video_wallpaper E st video_paths display_ids)) = []) \<and>
   (length video_paths = length display_ids \<and> 1 < length video_paths \<and>
    i < length video_paths \<and> video_paths ! i \<notin> fs \<and>
    (\<forall>j < length video_paths. j \<noteq> i \<longrightarrow>
       video_paths ! j \<in> fs \<and>
       (\<exists>s. screen_for E (display_ids ! j) = Some s \<and>
            \<not> native_raises E (video_paths ! j) s)) \<longrightarrow>
      fst (startWallpaperWithPaths E fs ws video_paths display_ids vol scale_mode)
        = Inr True \<and>
      map looper (snd (startWallpaperWithPaths E fs ws video_paths display_ids vol scale_mode))
        = map Some (take i video_paths @ drop (Suc i) video_paths) \<and>
      map target_screen
          (snd (startWallpaperWithPaths E fs ws video_paths display_ids vol scale_mode))
        = map (screen_for E) (take i display_ids @ drop (Suc i) display_ids))"
proof (rule conjI)
  show "video_paths = pre @ p # post \<and> length video_paths = length display_ids \<and>
    set pre \<subseteq> files st \<and> p \<notin> files st \<and> p \<notin> static_frame_path E ` set pre \<longrightarrow>
      fst (start_video_wallpaper E st video_paths display_ids) = VideoNotFound p \<and>
      windows (snd (start_video_wallpaper E st video_paths display_ids)) = []"
    using start_video_missing [of video_paths pre p post display_ids st E] by blast
next
  show "length video_paths = length display_ids \<and> 1 < length video_paths \<and>
    i < length video_paths \<and> video_paths ! i \<notin> fs \<and>
    (\<forall>j < length video_paths. j \<noteq> i \<longrightarrow>
       video_paths ! j \<in> fs \<and>
       (\<exists>s. screen_for E (display_ids ! j) = Some s \<and>
            \<not> native_raises E (video_paths ! j) s)) \<longrightarrow>
      fst (startWallpaperWithPaths E fs ws video_paths display_ids vol scale_mode)
        = Inr True \<and>
      map looper (snd (startWallpaperWithPaths E fs ws video_paths display_ids vol scale_mode))
        = map Some (take i video_paths @ drop (Suc i) video_paths) \<and>
      map target_screen
          (snd (startWallpaperWithPaths E fs ws video_paths display_ids vol scale_mode))
        = map (screen_for E) (take i display_ids @ drop (Suc i) display_ids)"
    using start_one_missing [of video_paths display_ids i fs E ws vol scale_mode] by blast
qed

lemma static_frame_path_a:
  "static_frame_path (example_env scs) ''/v/a.mp4'' = ''/cache/wallpapers/a.png''"
  by (simp add: static_frame_path_def example_env_def os_path_join_def path_stem_def
      path_name_def Let_def)

text \<open>
  Witness for the amended C1: three screens, the second of three videos missing, handed
  to the engine and to the manager.
\<close>

theorem missing_video_handling_witness:
  "[''/v/a.mp4'', ''/v/missing.mp4'', ''/v/c.mp4''] = [''/v/a.mp4''] @ ''/v/missing.mp4'' # [''/v/c.mp4''] \<and>
   length [''/v/a.mp4'', ''/v/missing.mp4'', ''/v/c.mp4''] = length [0, 1, 2 :: nat] \<and>
   ''/v/missing.mp4'' \<notin> files (example_state {''/v/a.mp4'', ''/v/c.mp4''} [init] []) \<and>
   fst (start_video_wallpaper (example_env [scr_a, scr_b, scr_c])
          (example_state {''/v/a.mp4'', ''/v/c.mp4''} [init] [])
          [''/v/a.mp4'', ''/v/missing.mp4'', ''/v/c.mp4''] [0, 1, 2])
     = VideoNotFound ''/v/missing.mp4'' \<and>
   windows (snd (start_video_wallpaper (example_env [scr_a, scr_b, scr_c])
                   (example_state {''/v/a.mp4'', ''/v/c.mp4''} [init] [])
                   [''/v/a.mp4'', ''/v/missing.mp4'', ''/v/c.mp4''] [0, 1, 2]))
     = [] \<and>
   (1::nat) < length [''/v/a.mp4'', ''/v/missing.mp4'', ''/v/c.mp4''] \<and>
   [''/v/a.mp4'', ''/v/missing.mp4'', ''/v/c.mp4''] ! 1 \<notin> {''/v/a.mp4'', ''/v/c.mp4''} \<and>
   fst (startWallpaperWithPaths (example_env [scr_a, scr_b, scr_c])
          {''/v/a.mp4'', ''/v/c.mp4''} []
          [''/v/a.mp4'', ''/v/missing.mp4'', ''/v/c.mp4''] [0, 1, 2] 0 ''fill'')
     = Inr True \<and>
   map looper
     (snd (startWallpaperWithPaths (example_env [scr_a, scr_b, scr_c])
             {''/v/a.mp4'', ''/v/c.mp4''} []
             [''/v/a.mp4'', ''/v/missing.mp4'', ''/v/c.mp4''] [0, 1, 2] 0 ''fill''))
     = [Some ''/v/a.mp4'', Some ''/v/c.mp4''] \<and>
   map target_screen
     (snd (startWallpaperWithPaths (example_env [scr_a, scr_b, scr_c])
             {''/v/a.mp4'', ''/v/c.mp4''} []
             [''/v/a.mp4'', ''/v/missing.mp4'', ''/v/c.mp4''] [0, 1, 2] 0 ''fill''))
     = [Some scr_a, Some scr_c]"
proof -
  let ?E = "example_env [scr_a, scr_b, scr_c]"
  let ?st = "example_state {''/v/a.mp4'', ''/v/c.mp4''} [init] []"
  let ?vp = "[''/v/a.mp4'', ''/v/missing.mp4'', ''/v/c.mp4'']"
  let ?fs = "{''/v/a.mp4'', ''/v/c.mp4''}"
  note t = missing_video_handling [of ?vp "[''/v/a.mp4'']" "''/v/missing.mp4''"
      "[''/v/c.mp4'']" "[0, 1, 2]" ?st ?E 1 ?fs "[]" 0 "''fill''"]
  have h1: "?vp = [''/v/a.mp4''] @ ''/v/missing.mp4'' # [''/v/c.mp4''] \<and>
    length ?vp = length [0, 1, 2 :: nat] \<and> set [''/v/a.mp4''] \<subseteq> files ?st \<and>
    ''/v/missing.mp4'' \<notin> files ?st \<and>
    ''/v/missing.mp4'' \<notin> static_frame_path ?E ` set [''/v/a.mp4'']"
    by (simp add: example_state_def static_frame_path_a)
  have scr: "screen_for ?E 0 = Some scr_a" "screen_for ?E 2 = Some scr_c"
    "\<forall>p s. \<not> native_raises ?E p s"
    by (simp_all add: screen_for_def example_env_def)
  have h2: "length ?vp = length [0, 1, 2 :: nat] \<and> 1 < length ?vp \<and> 1 < length ?vp \<and>
    ?vp ! 1 \<notin> ?fs \<and>
    (\<forall>j < length ?vp. j \<noteq> 1 \<longrightarrow>
       ?vp ! j \<in> ?fs \<and>
       (\<exists>s. screen_for ?E ([0, 1, 2] ! j) = Some s \<and> \<not> native_raises ?E (?vp ! j) s))"
    using scr by (simp add: less_Suc_eq numeral_3_eq_3)
  from t h1 have r1: "fst (start_video_wallpaper ?E ?st ?vp [0, 1, 2])
      = VideoNotFound ''/v/missing.mp4'' \<and>
    windows (snd (start_video_wallpaper ?E ?st ?vp [0, 1, 2])) = []"
    by blast
  from t h2 have r2: "fst (startWallpaperWithPaths ?E ?fs [] ?vp [0, 1, 2] 0 ''fill'')
        = Inr True \<and>
      map looper (snd (startWallpaperWithPaths ?E ?fs [] ?vp [0, 1, 2] 0 ''fill''))
        = map Some (take 1 ?vp @ drop (Suc 1) ?vp) \<and>
      map target_screen (snd (startWallpaperWithPaths ?E ?fs [] ?vp [0, 1, 2] 0 ''fill''))
        = map (screen_for ?E) (take 1 [0, 1, 2] @ drop (Suc 1) [0, 1, 2])"
    by blast
  from h1 h2 r1 r2 scr show ?thesis by simp
qed

end
